theory Spec2Isabelle
  imports Complex_Main
begin

section \<open>The market-coins viewer: one React component and its state\<close>

text \<open>
  The program is a single function component, \<^verbatim>\<open>App\<close>. Its state is eleven
  \<^verbatim>\<open>useState\<close> cells; two \<^verbatim>\<open>useEffect\<close> hooks issue the catalog request once
  and the markets request on mount and after every render in which one of the
  dependencies \<^verbatim>\<open>[currency, perPage, sortOrder, currentPage, searchString]\<close> differs
  from the render before. Event handlers and promise continuations only call state
  setters.

  The embedding follows that shape. A setter call is a value of type \<open>update\<close>; a handler
  is a function from the state of the render it closes over to the list of setter calls
  it makes, in source order; \<open>commit\<close> applies such a list, renders once and runs the
  markets effect when its dependencies changed. The requests that are in flight are kept
  in a list, so that a response can arrive for any of them, in any order.

  A JavaScript string is a sequence of UTF-16 code units. A \<open>char\<close> here is a code unit
  below 256, so the strings of the model are the texts of the Latin-1 range; text with
  a code unit from 256 on cannot be written in this type. On that range \<open>toLowerCase\<close>
  and \<open>trim\<close> are the built-ins exactly, as the section on them says.

  \<open>commit\<close> describes a render that completes. The table renders a row through
  \<^verbatim>\<open>formatCurrency\<close>, which throws on a currency code that is not three letters and
  on a missing price; \<open>render_throws\<close> says when, and a property that speaks of the
  request after a change of currency or sort order carries the hypothesis that the
  render does not throw.
\<close>

subsection \<open>Numbers as the rendering code meets them\<close>

text \<open>
  A field of a response object that is typed \<^verbatim>\<open>number\<close> may be absent (reading it
  gives \<^verbatim>\<open>undefined\<close>) or \<^verbatim>\<open>null\<close>. \<open>Finite q\<close> is a finite double of value \<open>q\<close>.
\<close>

datatype jsnum = NaN | Finite rat

datatype jsval = Undefined | Null | Number jsnum

text \<open>The coercion JavaScript applies to an operand of \<^verbatim>\<open>>=\<close> and of \<^verbatim>\<open>Math.abs\<close>.\<close>

fun ToNumber :: "jsval \<Rightarrow> jsnum" where
  "ToNumber Undefined = NaN"
| "ToNumber Null = Finite 0"
| "ToNumber (Number n) = n"

text \<open>\<^verbatim>\<open>v >= 0\<close>: false as soon as the coerced operand is \<^verbatim>\<open>NaN\<close>.\<close>

definition ge_zero :: "jsval \<Rightarrow> bool" where
  "ge_zero v = (case ToNumber v of NaN \<Rightarrow> False | Finite q \<Rightarrow> 0 \<le> q)"

definition Math_abs :: "jsval \<Rightarrow> jsnum" where
  "Math_abs v = (case ToNumber v of NaN \<Rightarrow> NaN | Finite q \<Rightarrow> Finite \<bar>q\<bar>)"

definition digit :: "nat \<Rightarrow> char" where
  "digit d = char_of (48 + d)"

function digits :: "nat \<Rightarrow> string" where
  "digits n = (if n < 10 then [digit n] else digits (n div 10) @ [digit (n mod 10)])"
  by pat_completeness auto
termination
  by (relation "measure (\<lambda>n. n)") auto

declare digits.simps [simp del]

text \<open>
  \<^verbatim>\<open>Number.prototype.toFixed(f)\<close>. \<^verbatim>\<open>NaN\<close> prints as its name. A finite value below
  \<open>10 ^ 21\<close> in magnitude is rounded to the nearest multiple of \<open>10 ^ - f\<close>, the larger
  one on a tie, and printed with exactly \<open>f\<close> decimals. From \<open>10 ^ 21\<close> on the built-in
  switches to exponent notation, which is outside this model: the result is \<open>None\<close>.
\<close>

definition toFixed :: "nat \<Rightarrow> jsnum \<Rightarrow> string option" where
  "toFixed f x =
     (case x of
        NaN \<Rightarrow> Some ''NaN''
      | Finite q \<Rightarrow>
          if 10 ^ 21 \<le> \<bar>q\<bar> then None
          else
            let n = nat \<lfloor>\<bar>q\<bar> * 10 ^ f + 1 / 2\<rfloor>;
                m = digits n;
                m' = (if f = 0 then m
                      else
                        let z = replicate (f + 1 - length m) (CHR ''0'') @ m;
                            k = length z
                        in take (k - f) z @ ''.'' @ drop (k - f) z)
            in Some ((if q < 0 then ''-'' else '''') @ m'))"

subsection \<open>Records of the two endpoints\<close>

record Coin =
  name :: string
  current_price :: jsval
  circulating_supply :: jsval
  image :: string
  price_change_24h :: jsval
  price_change_percentage_24h :: jsval

text \<open>An entry of the catalog (\<^verbatim>\<open>interface AllCoins\<close>); its fields \<^verbatim>\<open>id\<close> and
  \<^verbatim>\<open>name\<close> carry a prime here.\<close>

record AllCoins =
  id' :: string
  symbol :: string
  name' :: string

subsection \<open>The percentage column\<close>

datatype arrow = ArrowUp | ArrowDown

text \<open>What the \<^verbatim>\<open>render\<close> function of the column \<^verbatim>\<open>price_change_percentage_24h\<close>
  puts into its \<^verbatim>\<open>span\<close>: the colour, the arrow, and the digits before the
  percent sign.\<close>

record percent_cell =
  arrowColor :: string
  arrowIcon :: arrow
  fixed :: "string option"

definition render_percentage :: "Coin \<Rightarrow> percent_cell" where
  "render_percentage record =
     \<lparr> arrowColor = (if ge_zero (price_change_percentage_24h record) then ''green'' else ''red''),
       arrowIcon = (if ge_zero (price_change_percentage_24h record) then ArrowUp else ArrowDown),
       fixed = toFixed 2 (Math_abs (price_change_percentage_24h record)) \<rparr>"

text \<open>The \<^verbatim>\<open>dataIndex\<close> of each column of the table, in order.\<close>

definition column_keys :: "string list" where
  "column_keys =
     [''name'', ''current_price'', ''circulating_supply'', ''price_change_percentage_24h'']"

subsection \<open>Component state and its setters\<close>

record app_state =
  coins :: "Coin list"
  currency :: string
  sortOrder :: string
  perPage :: int
  currentPage :: int
  loading :: bool
  error :: "string option"
  searchInput :: string
  searchString :: string
  allCoins :: "AllCoins list"
  filteredOptions :: "AllCoins list"

definition init_state :: app_state where
  "init_state =
     \<lparr> coins = [], currency = ''USD'', sortOrder = ''market_cap_desc'', perPage = 10,
       currentPage = 1, loading = False, error = None, searchInput = '''',
       searchString = '''', allCoins = [], filteredOptions = [] \<rparr>"

datatype update =
    SetCoins "Coin list"
  | SetCurrency string
  | SetSortOrder string
  | SetPerPage int
  | SetCurrentPage int
  | SetLoading bool
  | SetError "string option"
  | SetSearchInput string
  | SetSearchString string
  | SetAllCoins "AllCoins list"
  | SetFilteredOptions "AllCoins list"

fun apply_update :: "update \<Rightarrow> app_state \<Rightarrow> app_state" where
  "apply_update (SetCoins v) s = s\<lparr>coins := v\<rparr>"
| "apply_update (SetCurrency v) s = s\<lparr>currency := v\<rparr>"
| "apply_update (SetSortOrder v) s = s\<lparr>sortOrder := v\<rparr>"
| "apply_update (SetPerPage v) s = s\<lparr>perPage := v\<rparr>"
| "apply_update (SetCurrentPage v) s = s\<lparr>currentPage := v\<rparr>"
| "apply_update (SetLoading v) s = s\<lparr>loading := v\<rparr>"
| "apply_update (SetError v) s = s\<lparr>error := v\<rparr>"
| "apply_update (SetSearchInput v) s = s\<lparr>searchInput := v\<rparr>"
| "apply_update (SetSearchString v) s = s\<lparr>searchString := v\<rparr>"
| "apply_update (SetAllCoins v) s = s\<lparr>allCoins := v\<rparr>"
| "apply_update (SetFilteredOptions v) s = s\<lparr>filteredOptions := v\<rparr>"

definition apply_updates :: "update list \<Rightarrow> app_state \<Rightarrow> app_state" where
  "apply_updates us s = foldl (\<lambda>t u. apply_update u t) s us"

subsection \<open>String built-ins\<close>

text \<open>
  The code units below 256 that \<^verbatim>\<open>toLowerCase\<close> changes: A to Z, and the accented
  capitals 192 to 222 without the multiplication sign 215. Each has its small letter 32
  above it, inside the range. No other code unit below 256 has a lower-case mapping, and
  the two rules of the built-in that look at the context or change the length (the final
  sigma and the dotted capital I) concern code units from 256 on.
\<close>

definition is_upper :: "char \<Rightarrow> bool" where
  "is_upper c =
     ((65::nat) \<le> of_char c \<and> of_char c \<le> (90::nat) \<or>
      (192::nat) \<le> of_char c \<and> of_char c \<le> (214::nat) \<or>
      (216::nat) \<le> of_char c \<and> of_char c \<le> (222::nat))"

definition lower_char :: "char \<Rightarrow> char" where
  "lower_char c = (if is_upper c then char_of (of_char c + (32::nat)) else c)"

definition toLowerCase :: "string \<Rightarrow> string" where
  "toLowerCase str = map lower_char str"

definition startsWith :: "string \<Rightarrow> string \<Rightarrow> bool" where
  "startsWith str search = (take (length search) str = search)"

text \<open>
  What \<^verbatim>\<open>trim\<close> strips, below 256: tab, line feed, vertical tab, form feed, carriage
  return, space and the no-break space. The other white space and line terminators of
  the language are code units from 256 on.
\<close>

definition is_space :: "char \<Rightarrow> bool" where
  "is_space c = (of_char c \<in> {9, 10, 11, 12, 13, 32, 160 :: nat})"

definition trim :: "string \<Rightarrow> string" where
  "trim str = rev (dropWhile is_space (rev (dropWhile is_space str)))"

text \<open>
  Equality up to case, said without the built-in: two code units are the same letter
  when they are equal or one is a capital and the other its small letter, and two
  strings are equal up to case when they have the same length and the same letter at
  each place.
\<close>

definition same_letter :: "char \<Rightarrow> char \<Rightarrow> bool" where
  "same_letter a b =
     (a = b \<or>
      is_upper a \<and> of_char b = of_char a + (32::nat) \<or>
      is_upper b \<and> of_char a = of_char b + (32::nat))"

definition equal_ignoring_case :: "string \<Rightarrow> string \<Rightarrow> bool" where
  "equal_ignoring_case s t = list_all2 same_letter s t"

subsection \<open>The markets request\<close>

datatype pval = PStr string | PNum int | PBool bool

text \<open>The \<^verbatim>\<open>params\<close> object handed to \<^verbatim>\<open>axios.get\<close>: its keys in source order, each
  with its value. A key that is not in the list is a parameter that is not sent.\<close>

type_synonym params = "(string \<times> pval) list"

definition request_params :: "app_state \<Rightarrow> params" where
  "request_params s =
     [(''vs_currency'', PStr (currency s)),
      (''order'', PStr (sortOrder s)),
      (''per_page'', PNum (perPage s)),
      (''page'', PNum (currentPage s)),
      (''sparkline'', PBool False),
      (''ids'', PStr (searchString s))]"

datatype response = Success "Coin list" | Failure

definition fetch_error_message :: string where
  "fetch_error_message = ''Failed to fetch data. Wait a moment and please try again.''"

text \<open>\<^verbatim>\<open>fetchCoins\<close> after its \<^verbatim>\<open>await\<close>: the \<^verbatim>\<open>try\<close> body or the \<^verbatim>\<open>catch\<close>
  block, then \<^verbatim>\<open>finally\<close>.\<close>

fun fetchCoins_settle :: "response \<Rightarrow> update list" where
  "fetchCoins_settle (Success data) = [SetCoins data, SetError None, SetLoading False]"
| "fetchCoins_settle Failure = [SetError (Some fetch_error_message), SetLoading False]"

text \<open>The dependency array of the markets effect.\<close>

definition deps :: "app_state \<Rightarrow> string \<times> int \<times> string \<times> int \<times> string" where
  "deps s = (currency s, perPage s, sortOrder s, currentPage s, searchString s)"

subsection \<open>Event handlers\<close>

record pagination =
  current :: "int option"
  pageSize :: "int option"

definition handleCurrencyChange :: "string \<Rightarrow> update list" where
  "handleCurrencyChange v = [SetCurrency v]"

definition handleSortOrderChange :: "string \<Rightarrow> update list" where
  "handleSortOrderChange v =
     [SetSortOrder (if v = ''market_cap_desc'' then ''market_cap_desc'' else ''market_cap_asc'')]"

definition handleTableChange :: "pagination \<Rightarrow> app_state \<Rightarrow> update list" where
  "handleTableChange p s =
     [SetCurrentPage (case current p of Some c \<Rightarrow> c | None \<Rightarrow> currentPage s),
      SetPerPage (case pageSize p of Some z \<Rightarrow> z | None \<Rightarrow> perPage s)]"

definition name_matches :: "string \<Rightarrow> AllCoins \<Rightarrow> bool" where
  "name_matches input coin = (toLowerCase (name' coin) = toLowerCase input)"

definition handleSearch :: "app_state \<Rightarrow> update list" where
  "handleSearch s =
     [SetSearchString
        (case find (name_matches (searchInput s)) (allCoins s) of
           Some selectedCoin \<Rightarrow> id' selectedCoin
         | None \<Rightarrow> '''')]"

definition handleClearSearch :: "update list" where
  "handleClearSearch = [SetSearchInput '''', SetSearchString '''', SetFilteredOptions []]"

definition name_starts :: "string \<Rightarrow> AllCoins \<Rightarrow> bool" where
  "name_starts v coin = startsWith (toLowerCase (name' coin)) (toLowerCase v)"

definition handleInputChange :: "string \<Rightarrow> app_state \<Rightarrow> update list" where
  "handleInputChange v s =
     SetSearchInput v #
     (if trim v \<noteq> [] then [SetFilteredOptions (filter (name_starts v) (allCoins s))]
      else [SetFilteredOptions []])"

subsection \<open>What the page shows below the table\<close>

text \<open>\<^verbatim>\<open>coins.length < 1 && error && ...\<close>: the message is rendered when the list is
  empty and the error is a non-empty string.\<close>

definition error_message_shown :: "app_state \<Rightarrow> bool" where
  "error_message_shown s =
     (length (coins s) < 1 \<and> (case error s of None \<Rightarrow> False | Some e \<Rightarrow> e \<noteq> []))"

subsection \<open>When rendering a row throws\<close>

datatype js_error = TypeError | RangeError

definition ascii_letter :: "char \<Rightarrow> bool" where
  "ascii_letter c =
     ((65::nat) \<le> of_char c \<and> of_char c \<le> (90::nat) \<or>
      (97::nat) \<le> of_char c \<and> of_char c \<le> (122::nat))"

text \<open>What \<^verbatim>\<open>Intl.NumberFormat\<close> accepts as a currency code: three ASCII letters, of
  either case. The code need not name a currency that exists.\<close>

definition well_formed_currency :: "string \<Rightarrow> bool" where
  "well_formed_currency c = (length c = 3 \<and> list_all ascii_letter c)"

text \<open>
  \<^verbatim>\<open>formatCurrency(value, currency)\<close> calls \<^verbatim>\<open>value.toLocaleString\<close> with the style
  \<^verbatim>\<open>currency\<close>. Calling a method of \<^verbatim>\<open>undefined\<close> or \<^verbatim>\<open>null\<close> is a type error, and
  a currency code that is not well formed is a range error. Otherwise the platform
  formats the number for the code; the text it makes is not modelled, the result is the
  number and the code it is given.
\<close>

definition formatCurrency :: "jsval \<Rightarrow> string \<Rightarrow> js_error + jsnum \<times> string" where
  "formatCurrency v cur =
     (case v of
        Undefined \<Rightarrow> Inl TypeError
      | Null \<Rightarrow> Inl TypeError
      | Number n \<Rightarrow> if well_formed_currency cur then Inr (n, cur) else Inl RangeError)"

text \<open>The \<^verbatim>\<open>render\<close> function of the column \<^verbatim>\<open>circulating_supply\<close>:
  \<^verbatim>\<open>supply.toLocaleString('en-US')\<close>.\<close>

definition render_supply :: "jsval \<Rightarrow> js_error + jsnum" where
  "render_supply supply =
     (case supply of
        Undefined \<Rightarrow> Inl TypeError
      | Null \<Rightarrow> Inl TypeError
      | Number n \<Rightarrow> Inr n)"

definition row_throws :: "string \<Rightarrow> Coin \<Rightarrow> bool" where
  "row_throws cur record =
     (isl (formatCurrency (current_price record) cur) \<or>
      isl (render_supply (circulating_supply record)))"

text \<open>
  The render of the component throws when the render of some row of \<^verbatim>\<open>coins\<close> does.
  Nothing catches the exception, so React then unmounts the component and no effect of
  that render runs. With no row on the page no cell is rendered and nothing throws.
\<close>

definition render_throws :: "app_state \<Rightarrow> bool" where
  "render_throws s = list_ex (row_throws (currency s)) (coins s)"

subsection \<open>The running component\<close>

text \<open>
  \<open>pending\<close> holds the markets requests that have not settled, each with the number of
  the dispatch that issued it (the count of earlier dispatches; the program itself keeps
  no such number) and the parameters it was issued with. \<open>dispatched\<close> is the history of
  all markets requests, oldest first.
\<close>

record system =
  st :: app_state
  pending :: "(nat \<times> params) list"
  dispatched :: "params list"
  catalog_pending :: bool

text \<open>\<^verbatim>\<open>fetchCoins\<close> up to its \<^verbatim>\<open>await\<close>, run by the effect of the render whose state
  is \<open>st sys\<close>.\<close>

definition fetchCoins_start :: "system \<Rightarrow> system" where
  "fetchCoins_start sys =
     sys\<lparr> st := apply_update (SetLoading True) (st sys),
          pending := pending sys @ [(length (dispatched sys), request_params (st sys))],
          dispatched := dispatched sys @ [request_params (st sys)] \<rparr>"

text \<open>
  The setter calls a handler or a continuation makes are applied together, then the
  component renders once and the markets effect runs if a dependency differs from the
  render before. This is how React treats the setter calls of one event handler: they are
  batched into one render. The continuation of \<^verbatim>\<open>fetchCoins\<close> changes no dependency,
  so for it the number of renders makes no difference. The render is taken to complete:
  where \<open>render_throws\<close> holds of the new state the program dispatches nothing.
\<close>

definition commit :: "update list \<Rightarrow> system \<Rightarrow> system" where
  "commit us sys =
     (let sys' = sys\<lparr>st := apply_updates us (st sys)\<rparr>
      in if deps (st sys') \<noteq> deps (st sys) then fetchCoins_start sys' else sys')"

text \<open>
  What can happen to the mounted component: the user changes a select, the pagination
  control, types into the search box or presses one of its buttons; a markets request
  in flight settles; the catalog arrives. A settlement for a number that is not in
  flight, and a second arrival of the catalog, cannot happen and leave the system as it
  is.
\<close>

datatype event =
    CurrencyChange string
  | SortOrderChange string
  | TableChange pagination
  | Search
  | ClearSearch
  | InputChange string
  | FetchSettled nat response
  | CatalogLoaded "AllCoins list"

fun step :: "event \<Rightarrow> system \<Rightarrow> system" where
  "step (CurrencyChange v) sys = commit (handleCurrencyChange v) sys"
| "step (SortOrderChange v) sys = commit (handleSortOrderChange v) sys"
| "step (TableChange p) sys = commit (handleTableChange p (st sys)) sys"
| "step Search sys = commit (handleSearch (st sys)) sys"
| "step ClearSearch sys = commit handleClearSearch sys"
| "step (InputChange v) sys = commit (handleInputChange v (st sys)) sys"
| "step (FetchSettled i r) sys =
     (if i \<in> set (map fst (pending sys))
      then commit (fetchCoins_settle r) (sys\<lparr>pending := filter (\<lambda>p. fst p \<noteq> i) (pending sys)\<rparr>)
      else sys)"
| "step (CatalogLoaded cs) sys =
     (if catalog_pending sys then commit [SetAllCoins cs] (sys\<lparr>catalog_pending := False\<rparr>)
      else sys)"

text \<open>The component after its first render: both effects have run.\<close>

definition mount :: system where
  "mount =
     fetchCoins_start \<lparr> st = init_state, pending = [], dispatched = [], catalog_pending = True \<rparr>"

definition run :: "event list \<Rightarrow> system \<Rightarrow> system" where
  "run evs sys = foldl (\<lambda>t e. step e t) sys evs"

subsection \<open>An invariant, and data for the examples\<close>

text \<open>The request issued last carries the parameters of the current state.\<close>

definition synced :: "system \<Rightarrow> bool" where
  "synced sys = (dispatched sys \<noteq> [] \<and> last (dispatched sys) = request_params (st sys))"

definition coin_a :: Coin where
  "coin_a = \<lparr> name = ''Bitcoin'', current_price = Number (Finite 60000),
              circulating_supply = Number (Finite 19000000), image = ''btc.png'',
              price_change_24h = Number (Finite (-120)),
              price_change_percentage_24h = Number (Finite (-1 / 5)) \<rparr>"

definition coin_b :: Coin where
  "coin_b = \<lparr> name = ''Ethereum'', current_price = Number (Finite 3000),
              circulating_supply = Number (Finite 120000000), image = ''eth.png'',
              price_change_24h = Number (Finite 45),
              price_change_percentage_24h = Number (Finite (3 / 2)) \<rparr>"

definition entry_btc :: AllCoins where
  "entry_btc = \<lparr> id' = ''bitcoin'', symbol = ''btc'', name' = ''Bitcoin'' \<rparr>"

definition entry_bch :: AllCoins where
  "entry_bch = \<lparr> id' = ''bitcoin-cash'', symbol = ''bch'', name' = ''Bitcoin Cash'' \<rparr>"

definition entry_eth :: AllCoins where
  "entry_eth = \<lparr> id' = ''ethereum'', symbol = ''eth'', name' = ''Ethereum'' \<rparr>"

definition entry_sp :: AllCoins where
  "entry_sp = \<lparr> id' = ''space-token'', symbol = ''spt'', name' = '' Space Token'' \<rparr>"

definition entry_btc2 :: AllCoins where
  "entry_btc2 = \<lparr> id' = ''bitcoin-2'', symbol = ''btc2'', name' = ''bitcoin'' \<rparr>"

definition entry_etoile :: AllCoins where
  "entry_etoile = \<lparr> id' = ''etoile'', symbol = ''eto'', name' = CHR 0xC9 # ''toile'' \<rparr>"

definition entry_nbsp :: AllCoins where
  "entry_nbsp = \<lparr> id' = ''nb-coin'', symbol = ''nbc'', name' = CHR 0xA0 # ''Coin'' \<rparr>"

text \<open>The sort order is one of the two the select offers.\<close>

definition order_ok :: "app_state \<Rightarrow> bool" where
  "order_ok s = (sortOrder s = ''market_cap_desc'' \<or> sortOrder s = ''market_cap_asc'')"

section \<open>Properties\<close>

subsection \<open>Rendering, dispatch and the invariant\<close>

lemma request_params_loading [simp]: "request_params (s\<lparr>loading := b\<rparr>) = request_params s"
  by (simp add: request_params_def)

lemma deps_loading [simp]: "deps (s\<lparr>loading := b\<rparr>) = deps s"
  by (simp add: deps_def)

lemma deps_eq_iff_params: "(deps s = deps t) = (request_params s = request_params t)"
  by (auto simp: deps_def request_params_def)

lemma st_commit:
  "st (commit us sys) =
     (if deps (apply_updates us (st sys)) \<noteq> deps (st sys)
      then (apply_updates us (st sys))\<lparr>loading := True\<rparr>
      else apply_updates us (st sys))"
  by (simp add: commit_def fetchCoins_start_def Let_def)

lemma dispatched_commit:
  "dispatched (commit us sys) =
     (if deps (apply_updates us (st sys)) \<noteq> deps (st sys)
      then dispatched sys @ [request_params (apply_updates us (st sys))]
      else dispatched sys)"
  by (simp add: commit_def fetchCoins_start_def Let_def)

lemma pending_commit:
  "pending (commit us sys) =
     (if deps (apply_updates us (st sys)) \<noteq> deps (st sys)
      then pending sys @ [(length (dispatched sys), request_params (apply_updates us (st sys)))]
      else pending sys)"
  by (simp add: commit_def fetchCoins_start_def Let_def)

lemma request_params_st_commit [simp]:
  "request_params (st (commit us sys)) = request_params (apply_updates us (st sys))"
  by (simp add: st_commit)

lemma synced_commit: "synced sys \<Longrightarrow> synced (commit us sys)"
  by (auto simp: synced_def dispatched_commit deps_eq_iff_params)

lemma synced_pending_update [simp]: "synced (sys\<lparr>pending := p\<rparr>) = synced sys"
  by (simp add: synced_def)

lemma synced_catalog_update [simp]: "synced (sys\<lparr>catalog_pending := p\<rparr>) = synced sys"
  by (simp add: synced_def)

lemma synced_step: "synced sys \<Longrightarrow> synced (step e sys)"
  by (cases e) (simp_all add: synced_commit)

lemma synced_mount: "synced mount"
  by (simp add: synced_def mount_def fetchCoins_start_def)

lemma run_snoc: "run (evs @ [e]) sys = step e (run evs sys)"
  by (simp add: run_def)

lemma synced_run: "synced (run evs mount)"
  by (induction evs rule: rev_induct) (simp_all add: run_snoc synced_step synced_mount run_def)

lemma dispatched_commit_synced:
  assumes "synced sys"
  shows "dispatched (commit us sys) =
     (if request_params (st (commit us sys)) = last (dispatched sys) then dispatched sys
      else dispatched sys @ [request_params (st (commit us sys))])"
  using assms by (simp add: synced_def dispatched_commit deps_eq_iff_params)

lemma dispatched_step_synced:
  assumes "synced sys"
  shows "dispatched (step e sys) =
     (if request_params (st (step e sys)) = last (dispatched sys) then dispatched sys
      else dispatched sys @ [request_params (st (step e sys))])"
proof (cases e)
  case (FetchSettled i r)
  have "synced (sys\<lparr>pending := filter (\<lambda>p. fst p \<noteq> i) (pending sys)\<rparr>)"
    using assms by simp
  from dispatched_commit_synced [OF this, of "fetchCoins_settle r"] assms
  show ?thesis using FetchSettled by (simp add: synced_def)
next
  case (CatalogLoaded cs)
  have "synced (sys\<lparr>catalog_pending := False\<rparr>)"
    using assms by simp
  from dispatched_commit_synced [OF this, of "[SetAllCoins cs]"] assms
  show ?thesis using CatalogLoaded by (simp add: synced_def)
qed (simp_all add: dispatched_commit_synced [OF assms])

subsection \<open>A response that arrives\<close>

lemma fetch_error_message_nonempty: "fetch_error_message \<noteq> []"
  by (simp add: fetch_error_message_def)

lemma deps_settle: "deps (apply_updates (fetchCoins_settle r) s) = deps s"
  by (cases r) (simp_all add: apply_updates_def deps_def)

lemma st_step_settled:
  "i \<in> set (map fst (pending sys)) \<Longrightarrow>
   st (step (FetchSettled i r) sys) = apply_updates (fetchCoins_settle r) (st sys)"
  by (simp add: st_commit deps_settle)

text \<open>
  Claim C10. When a markets request that is in flight succeeds, the list of coins becomes
  the response body, whatever it held before, and the error becomes \<^verbatim>\<open>null\<close>; so no
  error message is on the page after a success, also when an earlier request had failed.
\<close>

theorem success_replaces_list_and_clears_error:
  assumes "i \<in> set (map fst (pending sys))"
  shows "coins (st (step (FetchSettled i (Success d)) sys)) = d \<and>
         error (st (step (FetchSettled i (Success d)) sys)) = None \<and>
         \<not> error_message_shown (st (step (FetchSettled i (Success d)) sys))"
  by (simp del: step.simps
      add: st_step_settled [OF assms] apply_updates_def error_message_shown_def)

text \<open>The first request fails, the second then succeeds with one coin.\<close>

theorem success_replaces_list_and_clears_error_witness:
  "error (st (run [CurrencyChange ''EUR'', FetchSettled 0 Failure] mount)) = Some fetch_error_message \<and>
   coins (st (step (FetchSettled 1 (Success [coin_a]))
     (run [CurrencyChange ''EUR'', FetchSettled 0 Failure] mount))) = [coin_a] \<and>
   error (st (step (FetchSettled 1 (Success [coin_a]))
     (run [CurrencyChange ''EUR'', FetchSettled 0 Failure] mount))) = None \<and>
   \<not> error_message_shown (st (step (FetchSettled 1 (Success [coin_a]))
     (run [CurrencyChange ''EUR'', FetchSettled 0 Failure] mount)))"
proof -
  have p: "1 \<in> set (map fst (pending (run [CurrencyChange ''EUR'', FetchSettled 0 Failure] mount)))"
    by code_simp
  have e: "error (st (run [CurrencyChange ''EUR'', FetchSettled 0 Failure] mount)) =
      Some fetch_error_message"
    by code_simp
  from e success_replaces_list_and_clears_error [OF p, of "[coin_a]"] show ?thesis
    by simp
qed

text \<open>
  Claim C4. When a markets request that is in flight fails, the error is recorded and the
  list of coins stays what it was; the message is on the page afterwards exactly when that
  list is empty.
\<close>

theorem failure_keeps_list_and_records_error:
  assumes "i \<in> set (map fst (pending sys))"
  shows "coins (st (step (FetchSettled i Failure) sys)) = coins (st sys) \<and>
         error (st (step (FetchSettled i Failure) sys)) = Some fetch_error_message \<and>
         error_message_shown (st (step (FetchSettled i Failure) sys)) = (coins (st sys) = [])"
  by (simp del: step.simps
      add: st_step_settled [OF assms] apply_updates_def error_message_shown_def
        fetch_error_message_nonempty)

text \<open>Two coins are on the page when the second request fails: they stay, and the
  message is not shown. A failure of the very first request shows it.\<close>

theorem failure_keeps_list_and_records_error_witness:
  "coins (st (run [CurrencyChange ''EUR'', FetchSettled 0 (Success [coin_a, coin_b])] mount)) =
     [coin_a, coin_b] \<and>
   coins (st (step (FetchSettled 1 Failure)
     (run [CurrencyChange ''EUR'', FetchSettled 0 (Success [coin_a, coin_b])] mount))) =
     [coin_a, coin_b] \<and>
   error (st (step (FetchSettled 1 Failure)
     (run [CurrencyChange ''EUR'', FetchSettled 0 (Success [coin_a, coin_b])] mount))) =
     Some fetch_error_message \<and>
   \<not> error_message_shown (st (step (FetchSettled 1 Failure)
     (run [CurrencyChange ''EUR'', FetchSettled 0 (Success [coin_a, coin_b])] mount))) \<and>
   error_message_shown (st (step (FetchSettled 0 Failure) mount))"
proof -
  have p: "1 \<in> set (map fst (pending
      (run [CurrencyChange ''EUR'', FetchSettled 0 (Success [coin_a, coin_b])] mount)))"
    by code_simp
  have c: "coins (st (run [CurrencyChange ''EUR'', FetchSettled 0 (Success [coin_a, coin_b])] mount)) =
      [coin_a, coin_b]"
    by code_simp
  have q: "0 \<in> set (map fst (pending mount))"
    by code_simp
  have d: "coins (st mount) = []"
    by code_simp
  from c d failure_keeps_list_and_records_error [OF p] failure_keeps_list_and_records_error [OF q]
  show ?thesis by simp
qed

text \<open>
  Claim C1, as the program has it. The program numbers no request and compares nothing
  when a response arrives: the response to any request in flight, the latest or an
  older one, writes its outcome. A success replaces the list and clears the error, a
  failure records the error and keeps the list, and both clear the loading flag. The
  visible state therefore reflects the response that arrived last.
\<close>

theorem every_response_updates_visible_state:
  assumes "i \<in> set (map fst (pending sys))"
  shows "coins (st (step (FetchSettled i r) sys)) =
           (case r of Success d \<Rightarrow> d | Failure \<Rightarrow> coins (st sys)) \<and>
         error (st (step (FetchSettled i r) sys)) =
           (case r of Success d \<Rightarrow> None | Failure \<Rightarrow> Some fetch_error_message) \<and>
         loading (st (step (FetchSettled i r) sys)) = False"
  by (cases r) (simp_all del: step.simps add: st_step_settled [OF assms] apply_updates_def)

theorem every_response_updates_visible_state_witness:
  "coins (st (step (FetchSettled 0 (Success [coin_a]))
     (run [CurrencyChange ''EUR'', FetchSettled 1 (Success [coin_b])] mount))) = [coin_a] \<and>
   error (st (step (FetchSettled 0 (Success [coin_a]))
     (run [CurrencyChange ''EUR'', FetchSettled 1 (Success [coin_b])] mount))) = None \<and>
   loading (st (step (FetchSettled 0 (Success [coin_a]))
     (run [CurrencyChange ''EUR'', FetchSettled 1 (Success [coin_b])] mount))) = False"
proof -
  have p: "0 \<in> set (map fst (pending
      (run [CurrencyChange ''EUR'', FetchSettled 1 (Success [coin_b])] mount)))"
    by code_simp
  from every_response_updates_visible_state [OF p, of "Success [coin_a]"] show ?thesis
    by simp
qed

text \<open>
  The claim as the specification states it fails. The request for USD is dispatched on
  mount (number 0), the request for EUR after the currency is changed (number 1). The
  response for EUR arrives first and puts \<open>coin_b\<close> on the page; the response for USD
  arrives after it and replaces the list by \<open>coin_a\<close>, although the selected currency
  is EUR. A late failure of request 0 likewise records its error.
\<close>

theorem stale_response_overwrites_counterexample:
  "dispatched (run [CurrencyChange ''EUR''] mount) =
     [request_params init_state, request_params (init_state\<lparr>currency := ''EUR''\<rparr>)] \<and>
   map fst (pending (run [CurrencyChange ''EUR''] mount)) = [0, 1] \<and>
   coins (st (run [CurrencyChange ''EUR'', FetchSettled 1 (Success [coin_b])] mount)) = [coin_b] \<and>
   coins (st (run [CurrencyChange ''EUR'', FetchSettled 1 (Success [coin_b]),
                   FetchSettled 0 (Success [coin_a])] mount)) = [coin_a] \<and>
   currency (st (run [CurrencyChange ''EUR'', FetchSettled 1 (Success [coin_b]),
                      FetchSettled 0 (Success [coin_a])] mount)) = ''EUR'' \<and>
   [coin_a] \<noteq> [coin_b] \<and>
   error (st (run [CurrencyChange ''EUR'', FetchSettled 1 (Success [coin_b]),
                   FetchSettled 0 Failure] mount)) = Some fetch_error_message"
  by code_simp

subsection \<open>What a request carries\<close>

lemma map_of_request_params:
  "map_of (request_params s) ''vs_currency'' = Some (PStr (currency s))"
  "map_of (request_params s) ''order'' = Some (PStr (sortOrder s))"
  "map_of (request_params s) ''per_page'' = Some (PNum (perPage s))"
  "map_of (request_params s) ''page'' = Some (PNum (currentPage s))"
  "map_of (request_params s) ''sparkline'' = Some (PBool False)"
  "map_of (request_params s) ''ids'' = Some (PStr (searchString s))"
  by (simp_all add: request_params_def)

lemma ids_present_run:
  "list_all (\<lambda>d. map_of d ''ids'' \<noteq> None) (dispatched (run evs mount))"
proof (induction evs rule: rev_induct)
  case Nil
  show ?case
    by (simp add: run_def mount_def fetchCoins_start_def map_of_request_params)
next
  case (snoc e evs)
  then show ?case
    by (simp add: run_snoc dispatched_step_synced [OF synced_run] map_of_request_params)
qed

text \<open>
  Claim C2, as the program has it. The parameter object always has the key \<^verbatim>\<open>ids\<close>, and
  its value is the search string as it stands: every request ever dispatched carries the
  key, and the latest one carries the current search string. When the search term is
  empty the parameter is therefore sent with the empty string as its value.
\<close>

theorem search_string_always_sent_as_ids:
  "map_of (request_params s) ''ids'' = Some (PStr (searchString s)) \<and>
   map_of (last (dispatched (run evs mount))) ''ids'' =
     Some (PStr (searchString (st (run evs mount)))) \<and>
   list_all (\<lambda>d. map_of d ''ids'' \<noteq> None) (dispatched (run evs mount))"
  using synced_run [of evs] ids_present_run [of evs]
  by (simp add: synced_def map_of_request_params)

text \<open>
  The claim as stated fails in each of the three situations it names: on mount, after
  Clear (the third request of that run), and after a search for a name the catalog does
  not have, the search string is empty and the request carries \<^verbatim>\<open>ids\<close> with the empty
  string, where the claim wants the key to be absent.
\<close>

theorem empty_search_sends_empty_ids_counterexample:
  "searchString (st mount) = '''' \<and>
   map_of (last (dispatched mount)) ''ids'' = Some (PStr '''') \<and>
   searchString (st (run [CatalogLoaded [entry_btc], InputChange ''bitcoin'', Search,
                          ClearSearch] mount)) = '''' \<and>
   map_of (last (dispatched (run [CatalogLoaded [entry_btc], InputChange ''bitcoin'', Search,
                                  ClearSearch] mount))) ''ids'' = Some (PStr '''') \<and>
   length (dispatched (run [CatalogLoaded [entry_btc], InputChange ''bitcoin'', Search,
                            ClearSearch] mount)) = 3 \<and>
   searchString (st (run [CatalogLoaded [entry_btc], InputChange ''bitcoin'', Search,
                          InputChange ''nocoin'', Search] mount)) = '''' \<and>
   map_of (last (dispatched (run [CatalogLoaded [entry_btc], InputChange ''bitcoin'', Search,
                                  InputChange ''nocoin'', Search] mount))) ''ids'' =
     Some (PStr '''')"
  by code_simp

subsection \<open>The two selects and the pagination control\<close>

lemma render_throws_no_rows: "coins s = [] \<Longrightarrow> \<not> render_throws s"
  by (simp add: render_throws_def)

lemma render_throws_sortOrder [simp]: "render_throws (s\<lparr>sortOrder := v\<rparr>) = render_throws s"
  by (simp add: render_throws_def)

text \<open>
  Claim C3, as the program has it. Neither handler keeps the current value when it is
  given one outside the enumeration. \<^verbatim>\<open>handleCurrencyChange\<close> stores the value it is
  given, whatever it is: when the page renders with it, the value is in the state and,
  unless it is the current one, exactly one request is dispatched, which carries it as
  \<^verbatim>\<open>vs_currency\<close>. \<^verbatim>\<open>handleSortOrderChange\<close> stores \<^verbatim>\<open>market_cap_desc\<close> when given
  exactly that and \<^verbatim>\<open>market_cap_asc\<close> for every other value; when the page renders,
  that order is in the state and, unless it is the current one, in the one request
  dispatched. So the order sent is always one of the two enumerated values, but a value
  outside the enumeration is not ignored: it selects the ascending order. The page
  renders with any currency as long as no row is shown. Where the render throws (rows on
  the page and a currency code that is not three letters) nothing is stated.
\<close>

theorem setters_store_without_validation:
  "(\<not> render_throws ((st sys)\<lparr>currency := v\<rparr>) \<longrightarrow>
      currency (st (step (CurrencyChange v) sys)) = v \<and>
      dispatched (step (CurrencyChange v) sys) =
        (if v = currency (st sys) then dispatched sys
         else dispatched sys @ [request_params ((st sys)\<lparr>currency := v\<rparr>)]) \<and>
      map_of (request_params ((st sys)\<lparr>currency := v\<rparr>)) ''vs_currency'' = Some (PStr v)) \<and>
   (\<not> render_throws (st sys) \<longrightarrow>
      (let new = (if v = ''market_cap_desc'' then ''market_cap_desc'' else ''market_cap_asc'') in
        sortOrder (st (step (SortOrderChange v) sys)) = new \<and>
        dispatched (step (SortOrderChange v) sys) =
          (if new = sortOrder (st sys) then dispatched sys
           else dispatched sys @ [request_params ((st sys)\<lparr>sortOrder := new\<rparr>)]) \<and>
        map_of (request_params ((st sys)\<lparr>sortOrder := new\<rparr>)) ''order'' = Some (PStr new))) \<and>
   (coins (st sys) = [] \<longrightarrow> \<not> render_throws ((st sys)\<lparr>currency := v\<rparr>))"
  by (auto simp: map_of_request_params st_commit dispatched_commit handleCurrencyChange_def
      handleSortOrderChange_def apply_updates_def deps_def render_throws_def Let_def)

text \<open>
  On mount no row is shown, and the ill-formed code \<^verbatim>\<open>DOLLAR\<close> is dispatched. With
  two rows on the page the page would not render with \<^verbatim>\<open>DOLLAR\<close>; it renders with
  \<^verbatim>\<open>GBP\<close>, which is dispatched, and the order \<^verbatim>\<open>volume_desc\<close> dispatches a request
  for the ascending order.
\<close>

theorem setters_store_without_validation_witness:
  "coins (st mount) = [] \<and>
   \<not> well_formed_currency ''DOLLAR'' \<and>
   dispatched (step (CurrencyChange ''DOLLAR'') mount) =
     dispatched mount @ [request_params ((st mount)\<lparr>currency := ''DOLLAR''\<rparr>)] \<and>
   map_of (request_params ((st mount)\<lparr>currency := ''DOLLAR''\<rparr>)) ''vs_currency'' =
     Some (PStr ''DOLLAR'') \<and>
   coins (st (run [FetchSettled 0 (Success [coin_a, coin_b])] mount)) = [coin_a, coin_b] \<and>
   render_throws
     ((st (run [FetchSettled 0 (Success [coin_a, coin_b])] mount))\<lparr>currency := ''DOLLAR''\<rparr>) \<and>
   \<not> render_throws
     ((st (run [FetchSettled 0 (Success [coin_a, coin_b])] mount))\<lparr>currency := ''GBP''\<rparr>) \<and>
   currency (st (step (CurrencyChange ''GBP'')
     (run [FetchSettled 0 (Success [coin_a, coin_b])] mount))) = ''GBP'' \<and>
   dispatched (step (CurrencyChange ''GBP'')
     (run [FetchSettled 0 (Success [coin_a, coin_b])] mount)) =
     dispatched (run [FetchSettled 0 (Success [coin_a, coin_b])] mount) @
     [request_params
       ((st (run [FetchSettled 0 (Success [coin_a, coin_b])] mount))\<lparr>currency := ''GBP''\<rparr>)] \<and>
   sortOrder (st (step (SortOrderChange ''volume_desc'')
     (run [FetchSettled 0 (Success [coin_a, coin_b])] mount))) = ''market_cap_asc'' \<and>
   dispatched (step (SortOrderChange ''volume_desc'')
     (run [FetchSettled 0 (Success [coin_a, coin_b])] mount)) =
     dispatched (run [FetchSettled 0 (Success [coin_a, coin_b])] mount) @
     [request_params
       ((st (run [FetchSettled 0 (Success [coin_a, coin_b])] mount))
          \<lparr>sortOrder := ''market_cap_asc''\<rparr>)]"
proof -
  let ?r = "run [FetchSettled 0 (Success [coin_a, coin_b])] mount"
  have m: "coins (st mount) = []" "currency (st mount) = ''USD''"
    by code_simp+
  have w: "\<not> well_formed_currency ''DOLLAR''"
    by code_simp
  have r: "coins (st ?r) = [coin_a, coin_b]"
    "\<not> render_throws ((st ?r)\<lparr>currency := ''GBP''\<rparr>)"
    "\<not> render_throws (st ?r)"
    "render_throws ((st ?r)\<lparr>currency := ''DOLLAR''\<rparr>)"
    "currency (st ?r) = ''USD''"
    "sortOrder (st ?r) = ''market_cap_desc''"
    by code_simp+
  from m w r
    setters_store_without_validation [where sys = mount and v = "''DOLLAR''"]
    setters_store_without_validation [where sys = ?r and v = "''GBP''"]
    setters_store_without_validation [where sys = ?r and v = "''volume_desc''"]
  show ?thesis
    by (simp del: step.simps add: Let_def)
qed

text \<open>
  The claim as stated fails for both setters. The currency \<^verbatim>\<open>GBP\<close> replaces \<^verbatim>\<open>USD\<close>
  and is sent to the endpoint; the sort order \<^verbatim>\<open>volume_desc\<close> turns the current
  \<^verbatim>\<open>market_cap_desc\<close> into \<^verbatim>\<open>market_cap_asc\<close>.
\<close>

theorem out_of_enum_counterexample:
  "currency (st mount) = ''USD'' \<and>
   currency (st (step (CurrencyChange ''GBP'') mount)) = ''GBP'' \<and>
   map_of (last (dispatched (step (CurrencyChange ''GBP'') mount))) ''vs_currency'' =
     Some (PStr ''GBP'') \<and>
   sortOrder (st mount) = ''market_cap_desc'' \<and>
   sortOrder (st (step (SortOrderChange ''volume_desc'') mount)) = ''market_cap_asc''"
  by code_simp

text \<open>
  Claim C5. A table change that supplies a page number and a page size sets both
  fields before the next render. It dispatches nothing when both already had these
  values, and otherwise exactly one request, whose \<^verbatim>\<open>page\<close> and \<^verbatim>\<open>per_page\<close> are
  the two new values: no request is dispatched from a state in which only one of them
  is new.
\<close>

theorem table_change_sets_both_fields:
  "currentPage (st (step (TableChange \<lparr>current = Some n, pageSize = Some z\<rparr>) sys)) = n \<and>
   perPage (st (step (TableChange \<lparr>current = Some n, pageSize = Some z\<rparr>) sys)) = z \<and>
   dispatched (step (TableChange \<lparr>current = Some n, pageSize = Some z\<rparr>) sys) =
     (if n = currentPage (st sys) \<and> z = perPage (st sys) then dispatched sys
      else dispatched sys @ [request_params ((st sys)\<lparr>currentPage := n, perPage := z\<rparr>)]) \<and>
   map_of (request_params ((st sys)\<lparr>currentPage := n, perPage := z\<rparr>)) ''page'' =
     Some (PNum n) \<and>
   map_of (request_params ((st sys)\<lparr>currentPage := n, perPage := z\<rparr>)) ''per_page'' =
     Some (PNum z)"
  by (auto simp: map_of_request_params st_commit dispatched_commit handleTableChange_def
      apply_updates_def deps_def)

subsection \<open>No dispatch without a change\<close>

lemma order_ok_loading [simp]: "order_ok (s\<lparr>loading := b\<rparr>) = order_ok s"
  by (simp add: order_ok_def)

lemma sortOrder_st_commit:
  "sortOrder (st (commit us sys)) = sortOrder (apply_updates us (st sys))"
  by (simp add: st_commit)

lemma sortOrder_settle: "sortOrder (apply_updates (fetchCoins_settle r) s) = sortOrder s"
  by (cases r) (simp_all add: apply_updates_def)

lemma order_ok_step:
  assumes "order_ok (st sys)"
  shows "order_ok (st (step e sys))"
proof (cases e)
  case (FetchSettled i r)
  with assms show ?thesis
    by (simp add: order_ok_def sortOrder_st_commit sortOrder_settle)
qed (use assms in \<open>simp_all add: order_ok_def sortOrder_st_commit apply_updates_def
      handleCurrencyChange_def handleSortOrderChange_def handleTableChange_def
      handleSearch_def handleClearSearch_def handleInputChange_def\<close>)

lemma order_ok_run: "order_ok (st (run evs mount))"
proof (induction evs rule: rev_induct)
  case Nil
  show ?case
    by (simp add: run_def mount_def fetchCoins_start_def init_state_def order_ok_def)
next
  case (snoc e evs)
  then show ?case
    by (simp add: run_snoc order_ok_step)
qed

lemma deps_same_currency: "deps (apply_updates (handleCurrencyChange (currency s)) s) = deps s"
  by (simp add: handleCurrencyChange_def apply_updates_def deps_def)

lemma deps_same_order:
  "order_ok s \<Longrightarrow> deps (apply_updates (handleSortOrderChange (sortOrder s)) s) = deps s"
  by (auto simp: handleSortOrderChange_def apply_updates_def deps_def order_ok_def)

lemma deps_same_page:
  "deps (apply_updates
     (handleTableChange \<lparr>current = Some (currentPage s), pageSize = Some (perPage s)\<rparr> s) s) =
   deps s"
  by (simp add: handleTableChange_def apply_updates_def deps_def)

lemma deps_same_search: "deps (apply_updates [SetSearchString (searchString s)] s) = deps s"
  by (simp add: apply_updates_def deps_def)

lemma handleSearch_after_search:
  "handleSearch (st (step Search sys)) = handleSearch (st sys)"
  by (simp add: st_commit handleSearch_def apply_updates_def)

lemma dispatched_search_twice:
  "dispatched (step Search (step Search sys)) = dispatched (step Search sys)"
proof -
  define sys' where "sys' = step Search sys"
  have h: "handleSearch (st sys') = handleSearch (st sys)"
    unfolding sys'_def by (rule handleSearch_after_search)
  have "deps (apply_updates (handleSearch (st sys)) (st sys')) = deps (st sys')"
    unfolding sys'_def by (simp add: st_commit handleSearch_def apply_updates_def deps_def)
  then have "dispatched (commit (handleSearch (st sys')) sys') = dispatched sys'"
    by (simp add: h dispatched_commit)
  then show ?thesis
    unfolding sys'_def by simp
qed

text \<open>
  Claim C6. In every state the component can reach, a setter called with the value the
  state already has dispatches nothing: the currency select with the current currency,
  the order select with the current order, the pagination control with the current page
  and page size, the search-string setter with the current search string, and the Search
  button pressed a second time. In general an event dispatches a request exactly when the
  parameters of the state it leaves differ from those of the request dispatched last.
\<close>

theorem same_value_dispatches_nothing:
  "(let sys = run evs mount in
     dispatched (step (CurrencyChange (currency (st sys))) sys) = dispatched sys \<and>
     dispatched (step (SortOrderChange (sortOrder (st sys))) sys) = dispatched sys \<and>
     dispatched (step (TableChange \<lparr>current = Some (currentPage (st sys)),
                                     pageSize = Some (perPage (st sys))\<rparr>) sys) = dispatched sys \<and>
     dispatched (commit [SetSearchString (searchString (st sys))] sys) = dispatched sys \<and>
     dispatched (step Search (step Search sys)) = dispatched (step Search sys) \<and>
     dispatched (step e sys) =
       (if request_params (st (step e sys)) = last (dispatched sys) then dispatched sys
        else dispatched sys @ [request_params (st (step e sys))]))"
proof -
  have a: "dispatched (step (CurrencyChange (currency (st sys))) sys) = dispatched sys" for sys
    by (simp add: dispatched_commit deps_same_currency)
  have b: "dispatched (step (SortOrderChange (sortOrder (st (run evs mount)))) (run evs mount)) =
      dispatched (run evs mount)"
    by (simp add: dispatched_commit deps_same_order [OF order_ok_run])
  have c: "dispatched (step (TableChange \<lparr>current = Some (currentPage (st sys)),
      pageSize = Some (perPage (st sys))\<rparr>) sys) = dispatched sys" for sys
    by (simp add: dispatched_commit deps_same_page)
  have d: "dispatched (commit [SetSearchString (searchString (st sys))] sys) = dispatched sys"
    for sys
    by (simp add: dispatched_commit deps_same_search)
  note e = dispatched_step_synced [OF synced_run, of e evs]
  show ?thesis
    unfolding Let_def using a b c d e dispatched_search_twice by blast
qed

subsection \<open>The search box\<close>

text \<open>Lower-casing decides equality up to case.\<close>

lemma of_char_lt: "of_char c < (256::nat)"
  by (cases c) (simp add: of_char_def)

lemma of_char_lower_char:
  "(of_char (lower_char c) :: nat) = (if is_upper c then of_char c + 32 else of_char c)"
proof (cases "is_upper c")
  case True
  then have "of_char c + (32::nat) < 256"
    by (auto simp: is_upper_def)
  with True show ?thesis
    by (simp add: lower_char_def of_char_of)
next
  case False
  then show ?thesis
    by (simp add: lower_char_def)
qed

lemma lower_char_eq_iff: "(lower_char a = lower_char b) = same_letter a b"
proof -
  have "(lower_char a = lower_char b) =
      ((of_char (lower_char a) :: nat) = of_char (lower_char b))"
    by simp
  also have "\<dots> = (of_char a = (of_char b :: nat) \<or>
      is_upper a \<and> of_char b = of_char a + (32::nat) \<or>
      is_upper b \<and> of_char a = of_char b + (32::nat))"
    unfolding of_char_lower_char by (auto simp: is_upper_def)
  also have "\<dots> = same_letter a b"
    by (simp add: same_letter_def)
  finally show ?thesis .
qed

lemma toLowerCase_eq_iff: "(toLowerCase s = toLowerCase t) = equal_ignoring_case s t"
  unfolding toLowerCase_def equal_ignoring_case_def
proof (induction s arbitrary: t)
  case Nil
  show ?case by auto
next
  case (Cons a s)
  then show ?case
    by (cases t) (simp_all add: lower_char_eq_iff)
qed

lemma length_toLowerCase [simp]: "length (toLowerCase s) = length s"
  by (simp add: toLowerCase_def)

lemma take_toLowerCase: "take n (toLowerCase s) = toLowerCase (take n s)"
  by (simp add: toLowerCase_def take_map)

lemma startsWith_lower_iff:
  "startsWith (toLowerCase str) (toLowerCase v) = equal_ignoring_case (take (length v) str) v"
  by (simp add: startsWith_def take_toLowerCase toLowerCase_eq_iff)

lemma find_first:
  "list_all (\<lambda>x. \<not> P x) pre \<Longrightarrow> P c \<Longrightarrow> find P (pre @ c # post) = Some c"
  by (induction pre) simp_all

lemma find_none: "list_all (\<lambda>x. \<not> P x) xs \<Longrightarrow> find P xs = None"
  by (induction xs) simp_all

lemma st_step_search:
  "searchString (st (step Search sys)) =
     (case find (name_matches (searchInput (st sys))) (allCoins (st sys)) of
        Some selectedCoin \<Rightarrow> id' selectedCoin | None \<Rightarrow> '''')"
  "error (st (step Search sys)) = error (st sys)"
  "coins (st (step Search sys)) = coins (st sys)"
  by (simp_all add: st_commit handleSearch_def apply_updates_def)

text \<open>
  Claim C7. Pressing Search compares the typed string with the names of the catalog
  after lower-casing both, which is equality up to case. When an entry matches and none
  before it in the catalog does, the search string becomes that entry's identifier; when
  no entry matches, the search string becomes empty. Neither the error nor the list of
  coins is touched.
\<close>

theorem search_resolves_exact_name:
  "(allCoins (st sys) = pre @ c # post \<and>
    list_all (\<lambda>x. \<not> name_matches (searchInput (st sys)) x) pre \<and>
    name_matches (searchInput (st sys)) c \<longrightarrow>
      searchString (st (step Search sys)) = id' c) \<and>
   (list_all (\<lambda>x. \<not> name_matches (searchInput (st sys)) x) (allCoins (st sys)) \<longrightarrow>
      searchString (st (step Search sys)) = '''') \<and>
   error (st (step Search sys)) = error (st sys) \<and>
   coins (st (step Search sys)) = coins (st sys) \<and>
   name_matches input x = (toLowerCase (name' x) = toLowerCase input) \<and>
   name_matches input x = equal_ignoring_case (name' x) input"
  by (simp add: st_step_search find_first find_none name_matches_def toLowerCase_eq_iff
      del: step.simps)

text \<open>
  The catalog holds Ethereum, Bitcoin and a second entry named bitcoin. The typed
  \<^verbatim>\<open>BITCOIN\<close> selects the first of the two; the typed \<^verbatim>\<open>dogecoin\<close> afterwards
  empties the search string again. A name with a capital E acute is found by a typed
  small e acute followed by capitals.
\<close>

theorem search_resolves_exact_name_witness:
  "allCoins (st (run [CatalogLoaded [entry_eth, entry_btc, entry_btc2],
                      InputChange ''BITCOIN''] mount)) =
     [entry_eth] @ entry_btc # [entry_btc2] \<and>
   searchString (st (step Search
     (run [CatalogLoaded [entry_eth, entry_btc, entry_btc2],
           InputChange ''BITCOIN''] mount))) = ''bitcoin'' \<and>
   searchString (st (run [CatalogLoaded [entry_eth, entry_btc, entry_btc2],
     InputChange ''BITCOIN'', Search, InputChange ''dogecoin''] mount)) = ''bitcoin'' \<and>
   searchString (st (step Search
     (run [CatalogLoaded [entry_eth, entry_btc, entry_btc2], InputChange ''BITCOIN'',
       Search, InputChange ''dogecoin''] mount))) = '''' \<and>
   error (st (step Search
     (run [CatalogLoaded [entry_eth, entry_btc, entry_btc2], InputChange ''BITCOIN'',
       Search, InputChange ''dogecoin''] mount))) = None \<and>
   searchString (st (step Search
     (run [CatalogLoaded [entry_eth, entry_etoile],
           InputChange (CHR 0xE9 # ''TOILE'')] mount))) = ''etoile''"
proof -
  let ?s0 = "run [CatalogLoaded [entry_eth, entry_btc, entry_btc2],
       InputChange ''BITCOIN''] mount"
  let ?s1 = "run [CatalogLoaded [entry_eth, entry_btc, entry_btc2], InputChange ''BITCOIN'',
       Search, InputChange ''dogecoin''] mount"
  let ?s2 = "run [CatalogLoaded [entry_eth, entry_etoile],
       InputChange (CHR 0xE9 # ''TOILE'')] mount"
  have a: "allCoins (st ?s0) = [entry_eth] @ entry_btc # [entry_btc2] \<and>
      list_all (\<lambda>x. \<not> name_matches (searchInput (st ?s0)) x) [entry_eth] \<and>
      name_matches (searchInput (st ?s0)) entry_btc"
    by code_simp
  have b: "list_all (\<lambda>x. \<not> name_matches (searchInput (st ?s1)) x) (allCoins (st ?s1))"
    by code_simp
  have c: "searchString (st ?s1) = ''bitcoin'' \<and> error (st ?s1) = None"
    by code_simp
  have d: "id' entry_btc = ''bitcoin''" "id' entry_etoile = ''etoile''"
    by (simp_all add: entry_btc_def entry_etoile_def)
  have e: "allCoins (st ?s2) = [entry_eth] @ entry_etoile # [] \<and>
      list_all (\<lambda>x. \<not> name_matches (searchInput (st ?s2)) x) [entry_eth] \<and>
      name_matches (searchInput (st ?s2)) entry_etoile"
    by code_simp
  from a b c d e
    search_resolves_exact_name [where sys = ?s0 and pre = "[entry_eth]" and c = entry_btc
      and post = "[entry_btc2]"]
    search_resolves_exact_name [where sys = ?s1]
    search_resolves_exact_name [where sys = ?s2 and pre = "[entry_eth]" and c = entry_etoile
      and post = "[]"]
  show ?thesis by (simp del: step.simps)
qed

lemma dropWhile_space_Nil: "(dropWhile is_space v = []) = list_all is_space v"
  by (simp add: dropWhile_eq_Nil_conv list_all_iff)

lemma trim_empty_iff: "(trim v = []) = list_all is_space v"
proof
  assume "trim v = []"
  then have e: "dropWhile is_space (rev (dropWhile is_space v)) = []"
    by (simp add: trim_def)
  have "dropWhile is_space v = []"
  proof (rule ccontr)
    assume n: "dropWhile is_space v \<noteq> []"
    then have "\<not> is_space (hd (dropWhile is_space v))"
      by (rule hd_dropWhile)
    moreover from n have "hd (dropWhile is_space v) \<in> set (rev (dropWhile is_space v))"
      by simp
    ultimately show False
      using e by (auto simp: dropWhile_eq_Nil_conv)
  qed
  then show "list_all is_space v"
    by (simp only: dropWhile_space_Nil)
next
  assume "list_all is_space v"
  then have d: "dropWhile is_space v = []"
    by (simp only: dropWhile_space_Nil)
  show "trim v = []"
    unfolding trim_def d by simp
qed

lemma startsWith_iff: "startsWith str p = (\<exists>rest. str = p @ rest)"
proof
  assume "startsWith str p"
  then have "str = p @ drop (length p) str"
    by (metis startsWith_def append_take_drop_id)
  then show "\<exists>rest. str = p @ rest" ..
next
  assume "\<exists>rest. str = p @ rest"
  then show "startsWith str p"
    by (auto simp: startsWith_def)
qed

text \<open>
  Claim C8, as the program has it. For a typed string with at least one character that
  is not white space, the suggestions are exactly the catalog entries, in catalog order,
  whose name begins with the string up to case (their lower-cased name begins with the
  lower-cased string). For the empty string and for a string of white space only, the
  suggestions are empty.
\<close>

theorem suggestions_for_prefix:
  "filteredOptions (st (step (InputChange v) sys)) =
     (if list_all is_space v then [] else filter (name_starts v) (allCoins (st sys))) \<and>
   searchInput (st (step (InputChange v) sys)) = v \<and>
   name_starts v x = (\<exists>rest. toLowerCase (name' x) = toLowerCase v @ rest) \<and>
   name_starts v x = equal_ignoring_case (take (length v) (name' x)) v"
  by (simp add: st_commit handleInputChange_def apply_updates_def deps_def trim_empty_iff
      name_starts_def startsWith_iff [symmetric] startsWith_lower_iff)

text \<open>
  \<^verbatim>\<open>BIT\<close> suggests Bitcoin and Bitcoin Cash; a small e acute and a capital T suggest the
  name that begins with a capital E acute and a small t. A typed no-break space suggests
  nothing, although a name begins with it, and so does the empty string.
\<close>

theorem suggestions_for_prefix_witness:
  "filteredOptions (st (step (InputChange ''BIT'')
     (run [CatalogLoaded [entry_eth, entry_btc, entry_etoile, entry_bch, entry_nbsp]] mount))) =
     [entry_btc, entry_bch] \<and>
   filteredOptions (st (step (InputChange (CHR 0xE9 # ''T''))
     (run [CatalogLoaded [entry_eth, entry_btc, entry_etoile, entry_bch, entry_nbsp]] mount))) =
     [entry_etoile] \<and>
   filteredOptions (st (step (InputChange [CHR 0xA0])
     (run [CatalogLoaded [entry_eth, entry_btc, entry_etoile, entry_bch, entry_nbsp]] mount))) =
     [] \<and>
   filteredOptions (st (step (InputChange '''')
     (run [CatalogLoaded [entry_eth, entry_btc, entry_etoile, entry_bch, entry_nbsp]] mount))) =
     [] \<and>
   name_starts [CHR 0xA0] entry_nbsp"
proof -
  let ?s = "run [CatalogLoaded [entry_eth, entry_btc, entry_etoile, entry_bch, entry_nbsp]] mount"
  have a: "(if list_all is_space ''BIT'' then []
      else filter (name_starts ''BIT'') (allCoins (st ?s))) = [entry_btc, entry_bch]"
    by code_simp
  have b: "(if list_all is_space (CHR 0xE9 # ''T'') then []
      else filter (name_starts (CHR 0xE9 # ''T'')) (allCoins (st ?s))) = [entry_etoile]"
    by code_simp
  have c: "(if list_all is_space [CHR 0xA0] then []
      else filter (name_starts [CHR 0xA0]) (allCoins (st ?s))) = []"
    by code_simp
  have d: "(if list_all is_space '''' then []
      else filter (name_starts '''') (allCoins (st ?s))) = []"
    by code_simp
  have e: "name_starts [CHR 0xA0] entry_nbsp"
    by code_simp
  from a b c d e
    suggestions_for_prefix [where sys = ?s and v = "''BIT''"]
    suggestions_for_prefix [where sys = ?s and v = "CHR 0xE9 # ''T''"]
    suggestions_for_prefix [where sys = ?s and v = "[CHR 0xA0]"]
    suggestions_for_prefix [where sys = ?s and v = "''''"]
  show ?thesis by (simp only:) 
qed

text \<open>
  The claim as stated fails for a prefix that is not empty but blank. The catalog has an
  entry whose name begins with a space; for the typed string of one space the program
  suggests nothing, although that entry's name starts with it.
\<close>

theorem blank_prefix_counterexample:
  "filteredOptions (st (step (InputChange '' '')
     (run [CatalogLoaded [entry_btc, entry_sp]] mount))) = [] \<and>
   filter (name_starts '' '') (allCoins (st (run [CatalogLoaded [entry_btc, entry_sp]] mount))) =
     [entry_sp] \<and>
   '' '' \<noteq> ''''"
  by code_simp

subsection \<open>The percentage column on a record with a missing field\<close>

text \<open>
  Claim C9, as the program has it. A record whose percentage is \<^verbatim>\<open>null\<close> renders as
  zero does: green, arrow up, \<^verbatim>\<open>0.00\<close>. A record from which the percentage is absent
  renders red, arrow down, \<^verbatim>\<open>NaN\<close>. The absolute price change is read by no column,
  so its value, present or missing, changes nothing in the cell.
\<close>

theorem percentage_of_missing_field:
  "render_percentage (c\<lparr>price_change_percentage_24h := Null\<rparr>) =
     \<lparr>arrowColor = ''green'', arrowIcon = ArrowUp, fixed = Some ''0.00''\<rparr> \<and>
   render_percentage (c\<lparr>price_change_percentage_24h := Null\<rparr>) =
     render_percentage (c\<lparr>price_change_percentage_24h := Number (Finite 0)\<rparr>) \<and>
   render_percentage (c\<lparr>price_change_percentage_24h := Undefined\<rparr>) =
     \<lparr>arrowColor = ''red'', arrowIcon = ArrowDown, fixed = Some ''NaN''\<rparr> \<and>
   render_percentage (c\<lparr>price_change_24h := v\<rparr>) = render_percentage c \<and>
   ''price_change_24h'' \<notin> set column_keys"
proof -
  have z: "toFixed 2 (Finite 0) = Some ''0.00''"
    by code_simp
  show ?thesis
    by (simp add: render_percentage_def ge_zero_def Math_abs_def z column_keys_def)
      (simp add: toFixed_def)
qed

text \<open>
  The claim as stated fails when the field is absent: the cell is not the cell of zero,
  it shows \<^verbatim>\<open>NaN\<close> under a down arrow.
\<close>

theorem missing_percentage_counterexample:
  "render_percentage (coin_a\<lparr>price_change_percentage_24h := Undefined\<rparr>) \<noteq>
     render_percentage (coin_a\<lparr>price_change_percentage_24h := Number (Finite 0)\<rparr>) \<and>
   fixed (render_percentage (coin_a\<lparr>price_change_percentage_24h := Undefined\<rparr>)) =
     Some ''NaN'' \<and>
   arrowIcon (render_percentage (coin_a\<lparr>price_change_percentage_24h := Undefined\<rparr>)) =
     ArrowDown \<and>
   fixed (render_percentage (coin_a\<lparr>price_change_percentage_24h := Number (Finite 0)\<rparr>)) =
     Some ''0.00''"
  by code_simp

end
